theory Spec2Isabelle
  imports Main "HOL-Library.Word" "HOL-Library.AList" "HOL-Library.Multiset"
begin

section \<open>JavaScript values\<close>

text \<open>
  A JavaScript string is a sequence of 16-bit code units.  The functions of the
  repository that look inside a string (\<^verbatim>\<open>trim\<close>, the \<^verbatim>\<open>\d\<close> class of a regular
  expression, truthiness) are defined on code units, so strings are modelled as lists of
  16-bit words; \<open>str\<close> turns an ASCII literal into such a string.
\<close>

type_synonym code_unit = "16 word"
type_synonym js_string = "code_unit list"

definition str :: "string \<Rightarrow> js_string" where
  "str s = map of_char s"

text \<open>Truthiness of a string: every string but the empty one.\<close>

definition truthy_string :: "js_string \<Rightarrow> bool" where
  "truthy_string s = (s \<noteq> [])"

text \<open>
  \<^verbatim>\<open>String.prototype.trim\<close> removes leading and trailing WhiteSpace and LineTerminator
  code points (ECMA-262, 11.2 and 11.3).
\<close>

definition isWhiteSpace :: "code_unit \<Rightarrow> bool" where
  "isWhiteSpace c =
     (c = 0x0009 \<or> c = 0x000A \<or> c = 0x000B \<or> c = 0x000C \<or> c = 0x000D \<or> c = 0x0020 \<or>
      c = 0x00A0 \<or> c = 0x1680 \<or> (0x2000 \<le> c \<and> c \<le> 0x200A) \<or> c = 0x2028 \<or>
      c = 0x2029 \<or> c = 0x202F \<or> c = 0x205F \<or> c = 0x3000 \<or> c = 0xFEFF)"

definition trim :: "js_string \<Rightarrow> js_string" where
  "trim s = rev (dropWhile isWhiteSpace (rev (dropWhile isWhiteSpace s)))"

text \<open>
  A JavaScript \<^verbatim>\<open>number\<close>.  \<open>Integer i\<close> is a double whose value is the integer \<open>i\<close>
  (below \<open>10^21\<close> in magnitude, where \<^verbatim>\<open>Number::toString\<close> prints plain decimal digits),
  \<open>NaN\<close> is not-a-number, and \<open>NonInteger t\<close> is any other double (a fraction, an
  infinity, a huge value), carried with the text \<open>t\<close> that \<^verbatim>\<open>Number::toString\<close> gives it.
  Only \<open>0\<close> and \<open>NaN\<close> are falsy.
\<close>

datatype js_number = Integer int | NaN | NonInteger js_string

fun truthy_number :: "js_number \<Rightarrow> bool" where
  "truthy_number (Integer i) = (i \<noteq> 0)"
| "truthy_number NaN = False"
| "truthy_number (NonInteger t) = True"

fun decimal :: "nat \<Rightarrow> js_string" where
  "decimal n = (if n < 10 then [of_nat (48 + n)] else decimal (n div 10) @ [of_nat (48 + n mod 10)])"

fun number_toString :: "js_number \<Rightarrow> js_string" where
  "number_toString (Integer i) = (if i < 0 then str ''-'' @ decimal (nat (- i)) else decimal (nat i))"
| "number_toString NaN = str ''NaN''"
| "number_toString (NonInteger t) = t"

text \<open>\<^verbatim>\<open>Array.prototype.join\<close> on an array of strings.\<close>

fun join :: "js_string \<Rightarrow> js_string list \<Rightarrow> js_string" where
  "join sep [] = []"
| "join sep [x] = x"
| "join sep (x # y # ys) = x @ sep @ join sep (y # ys)"

text \<open>A rejected promise or a thrown exception carries an \<^verbatim>\<open>Error\<close> with a message.\<close>

datatype error = Error js_string

section \<open>services/cloudinary.ts\<close>

definition CLOUD_NAME :: js_string where
  "CLOUD_NAME = str ''your-cloud-name''"

definition UPLOAD_PRESET :: js_string where
  "UPLOAD_PRESET = str ''your-upload-preset''"

datatype resource_type = Image | Video

fun resource_type_string :: "resource_type \<Rightarrow> js_string" where
  "resource_type_string Image = str ''image''"
| "resource_type_string Video = str ''video''"

subsection \<open>uploadToCloudinary\<close>

text \<open>
  What \<^verbatim>\<open>fetch\<close> and \<^verbatim>\<open>response.json()\<close> can give back to one upload: the request itself
  is rejected, or a response arrives with its \<^verbatim>\<open>ok\<close> flag, its status text and the parsed
  body, of which the code reads \<^verbatim>\<open>error.message\<close> and \<^verbatim>\<open>secure_url\<close>.
\<close>

record upload_result =
  result_error :: "js_string option"
  secure_url :: js_string

record response =
  ok :: bool
  statusText :: js_string
  json :: "error + upload_result"

type_synonym fetch_outcome = "error + response"

text \<open>The request that one upload sends: the endpoint and the three form fields.\<close>

record form_file =
  file_uri :: js_string
  file_type :: js_string
  file_name :: js_string

record upload_request =
  endpoint :: js_string
  file_field :: form_file
  upload_preset :: js_string
  cloud_name :: js_string

definition upload_request_of :: "js_string \<Rightarrow> resource_type \<Rightarrow> upload_request" where
  "upload_request_of fileUri resourceType =
     \<lparr>endpoint = str ''https://api.cloudinary.com/v1_1/'' @ CLOUD_NAME @ str ''/''
                   @ resource_type_string resourceType @ str ''/upload'',
      file_field = \<lparr>file_uri = fileUri,
                    file_type = (if resourceType = Image then str ''image/jpeg'' else str ''video/mp4''),
                    file_name = str ''upload.'' @ (if resourceType = Image then str ''jpg'' else str ''mp4'')\<rparr>,
      upload_preset = UPLOAD_PRESET,
      cloud_name = CLOUD_NAME\<rparr>"

text \<open>
  The outcome of \<^verbatim>\<open>uploadToCloudinary\<close> for a given answer of the network: the
  \<^verbatim>\<open>catch\<close> block logs and rethrows, so every failure reaches the caller as \<open>Inl\<close>.
\<close>

definition uploadToCloudinary :: "fetch_outcome \<Rightarrow> error + js_string" where
  "uploadToCloudinary net =
     (case net of
        Inl e \<Rightarrow> Inl e
      | Inr response \<Rightarrow>
          if \<not> ok response then Inl (Error (str ''Upload failed: '' @ statusText response))
          else (case json response of
                  Inl e \<Rightarrow> Inl e
                | Inr result \<Rightarrow>
                    (case result_error result of
                       Some message \<Rightarrow> Inl (Error (str ''Cloudinary error: '' @ message))
                     | None \<Rightarrow> Inr (secure_url result))))"

subsection \<open>uploadMultipleToCloudinary\<close>

text \<open>
  A promise that has settled: the logical time at which it settled and its outcome.
  \<^verbatim>\<open>Promise.all\<close> fulfils with all values, in index order, when every promise fulfils;
  otherwise it rejects with the reason of the promise that rejected first.
\<close>

type_synonym 'a settled = "nat \<times> (error + 'a)"

fun first_rejection :: "'a settled list \<Rightarrow> (nat \<times> error) option" where
  "first_rejection [] = None"
| "first_rejection ((t, Inr v) # ps) = first_rejection ps"
| "first_rejection ((t, Inl e) # ps) =
     (case first_rejection ps of
        None \<Rightarrow> Some (t, e)
      | Some (t', e') \<Rightarrow> if t' < t then Some (t', e') else Some (t, e))"

fun fulfilled_values :: "'a settled list \<Rightarrow> 'a list" where
  "fulfilled_values [] = []"
| "fulfilled_values ((t, Inr v) # ps) = v # fulfilled_values ps"
| "fulfilled_values ((t, Inl e) # ps) = fulfilled_values ps"

definition Promise_all :: "'a settled list \<Rightarrow> error + 'a list" where
  "Promise_all ps =
     (case first_rejection ps of
        Some (t, e) \<Rightarrow> Inl e
      | None \<Rightarrow> Inr (fulfilled_values ps))"

text \<open>
  Each file handle comes with the time at which its request settles and the answer of
  the network to it.  The uploads are all started by the \<^verbatim>\<open>map\<close>; the \<^verbatim>\<open>catch\<close> block
  logs and rethrows the rejection of \<^verbatim>\<open>Promise.all\<close>.
\<close>

definition uploadMultipleToCloudinary :: "(js_string \<times> nat \<times> fetch_outcome) list \<Rightarrow> error + js_string list" where
  "uploadMultipleToCloudinary fileUris =
     (let uploadPromises = map (\<lambda>(uri, t, net). (t, uploadToCloudinary net)) fileUris
      in Promise_all uploadPromises)"

subsection \<open>getOptimizedImageUrl\<close>

datatype quality = QAuto | QNumber js_number
datatype format = FAuto | Webp | Jpg | Png
datatype crop = Fill | Fit | Scale | Crop

fun quality_toString :: "quality \<Rightarrow> js_string" where
  "quality_toString QAuto = str ''auto''"
| "quality_toString (QNumber n) = number_toString n"

fun truthy_quality :: "quality \<Rightarrow> bool" where
  "truthy_quality QAuto = True"
| "truthy_quality (QNumber n) = truthy_number n"

fun format_toString :: "format \<Rightarrow> js_string" where
  "format_toString FAuto = str ''auto''"
| "format_toString Webp = str ''webp''"
| "format_toString Jpg = str ''jpg''"
| "format_toString Png = str ''png''"

fun crop_toString :: "crop \<Rightarrow> js_string" where
  "crop_toString Fill = str ''fill''"
| "crop_toString Fit = str ''fit''"
| "crop_toString Scale = str ''scale''"
| "crop_toString Crop = str ''crop''"

record transformations =
  width :: "js_number option"
  height :: "js_number option"
  quality :: "quality option"
  format :: "format option"
  crop :: "crop option"

text \<open>
  One line \<^verbatim>\<open>if (transformations.f) transforms.push(`p_${transformations.f}`)\<close>: the
  segment is pushed when the field is there and its value is truthy.
\<close>

definition push_if :: "('a \<Rightarrow> bool) \<Rightarrow> ('a \<Rightarrow> js_string) \<Rightarrow> string \<Rightarrow> 'a option \<Rightarrow> js_string list \<Rightarrow> js_string list" where
  "push_if truthy toString prefix field transforms =
     (case field of
        None \<Rightarrow> transforms
      | Some v \<Rightarrow> if truthy v then transforms @ [str prefix @ toString v] else transforms)"

definition getOptimizedImageUrl :: "js_string \<Rightarrow> transformations option \<Rightarrow> js_string" where
  "getOptimizedImageUrl publicId transformations =
     (let transformString =
        (case transformations of
           None \<Rightarrow> []
         | Some t \<Rightarrow>
             (let transforms = [];
                  transforms = push_if truthy_number number_toString ''w_'' (width t) transforms;
                  transforms = push_if truthy_number number_toString ''h_'' (height t) transforms;
                  transforms = push_if truthy_quality quality_toString ''q_'' (quality t) transforms;
                  transforms = push_if (\<lambda>f. True) format_toString ''f_'' (format t) transforms;
                  transforms = push_if (\<lambda>c. True) crop_toString ''c_'' (crop t) transforms
              in if length transforms > 0 then str ''/'' @ join (str '','') transforms else []))
      in str ''https://res.cloudinary.com/'' @ CLOUD_NAME @ str ''/image/upload'' @ transformString
           @ str ''/'' @ publicId)"

text \<open>
  The helper as the specification words it: the segments of the options that are present,
  in the order width, height, quality, format, crop, joined by commas.
\<close>

definition present :: "string \<Rightarrow> ('a \<Rightarrow> js_string) \<Rightarrow> 'a option \<Rightarrow> js_string list" where
  "present prefix toString field =
     (case field of None \<Rightarrow> [] | Some v \<Rightarrow> [str prefix @ toString v])"

definition optimizedUrl_spec :: "js_string \<Rightarrow> transformations \<Rightarrow> js_string" where
  "optimizedUrl_spec publicId options =
     (let segments = present ''w_'' number_toString (width options)
                   @ present ''h_'' number_toString (height options)
                   @ present ''q_'' quality_toString (quality options)
                   @ present ''f_'' format_toString (format options)
                   @ present ''c_'' crop_toString (crop options)
      in str ''https://res.cloudinary.com/'' @ CLOUD_NAME @ str ''/image/upload''
           @ (if segments = [] then [] else str ''/'' @ join (str '','') segments)
           @ str ''/'' @ publicId)"

text \<open>
  The same with presence read as the code reads it: an option counts when it is there and
  its value is truthy.
\<close>

definition truthy_value :: "('a \<Rightarrow> bool) \<Rightarrow> ('a \<Rightarrow> js_string) \<Rightarrow> 'a option \<Rightarrow> js_string option" where
  "truthy_value truthy toString field =
     (case field of None \<Rightarrow> None | Some v \<Rightarrow> if truthy v then Some (toString v) else None)"

definition truthy_segments :: "transformations \<Rightarrow> js_string list" where
  "truthy_segments options =
     [str prefix @ text.
        (prefix, Some text) \<leftarrow>
          [(''w_'', truthy_value truthy_number number_toString (width options)),
           (''h_'', truthy_value truthy_number number_toString (height options)),
           (''q_'', truthy_value truthy_quality quality_toString (quality options)),
           (''f_'', truthy_value (\<lambda>f. True) format_toString (format options)),
           (''c_'', truthy_value (\<lambda>c. True) crop_toString (crop options))]]"

section \<open>types/index.ts\<close>

record User =
  user_id :: js_string
  name :: js_string
  dob :: js_string

text \<open>
  \<open>album_data\<close> is \<^verbatim>\<open>Omit<AlbumItem, 'id'>\<close>, the document body stored in the
  \<^verbatim>\<open>albums\<close> collection; \<open>AlbumItem\<close> adds the \<^verbatim>\<open>id\<close>.  A timestamp is the integer
  that \<^verbatim>\<open>Date.now()\<close> returns.
\<close>

record album_data =
  url :: js_string
  uploaderName :: js_string
  timestamp :: int
  media_type :: resource_type

record AlbumItem = album_data +
  item_id :: js_string

section \<open>The hosted services and the effects of the application\<close>

text \<open>
  Every call that leaves a screen is recorded, in the order in which it happens: calls into
  the service modules and the database client, alerts, navigation and console output.
\<close>

datatype effect =
    Alert js_string js_string
  | ConsoleError js_string
  | RouterReplace js_string
  | EnsureAuthenticated
  | SignInAnonymously
  | UsersSet js_string User
  | UsersGetAll
  | UploadToCloudinary js_string resource_type
  | AlbumsAdd album_data

text \<open>
  The state outside the screens: the user of the auth client (\<^verbatim>\<open>authentication.currentUser\<close>,
  given by its uid), the two collections of the database as lists of documents with
  their keys, and the trace of effects.
\<close>

record world =
  auth_currentUser :: "js_string option"
  db_users :: "(js_string \<times> User) list"
  db_albums :: "(js_string \<times> album_data) list"
  trace :: "effect list"

text \<open>
  What the hosted services answer while one handler runs: the uid that a sign-in mints or
  its rejection, the rejection of a database read or write if there is one, the key that
  the database generates for an added document, the answer to an upload request, and the
  clock.
\<close>

record hosted =
  auth_answer :: "error + js_string"
  read_answer :: "error option"
  write_answer :: "error option"
  generated_id :: js_string
  fetch_answer :: fetch_outcome
  now :: int

definition perform :: "effect \<Rightarrow> world \<Rightarrow> world" where
  "perform e w = w\<lparr>trace := trace w @ [e]\<rparr>"

text \<open>The effects that happened between two states of the world.\<close>

definition performed :: "world \<Rightarrow> world \<Rightarrow> effect list" where
  "performed w w' = drop (length (trace w)) (trace w')"

text \<open>The effects that write to the database.\<close>

fun is_write :: "effect \<Rightarrow> bool" where
  "is_write (UsersSet uid userData) = True"
| "is_write (AlbumsAdd albumItem) = True"
| "is_write e = False"

section \<open>services/firebase.ts\<close>

definition signInAnonymously :: "hosted \<Rightarrow> world \<Rightarrow> (error + js_string) \<times> world" where
  "signInAnonymously h w =
     (let w = perform SignInAnonymously w
      in case auth_answer h of
           Inr uid \<Rightarrow> (Inr uid, w\<lparr>auth_currentUser := Some uid\<rparr>)
         | Inl e \<Rightarrow> (Inl e, perform (ConsoleError (str ''Error signing in anonymously:'')) w))"

definition getCurrentUserUID :: "world \<Rightarrow> js_string option" where
  "getCurrentUserUID w =
     (case auth_currentUser w of Some uid \<Rightarrow> Some uid | None \<Rightarrow> None)"

definition ensureAuthenticated :: "hosted \<Rightarrow> world \<Rightarrow> (error + js_string) \<times> world" where
  "ensureAuthenticated h w =
     (let w = perform EnsureAuthenticated w;
          currentUID = getCurrentUserUID w
      in case currentUID of
           Some uid \<Rightarrow> if truthy_string uid then (Inr uid, w) else signInAnonymously h w
         | None \<Rightarrow> signInAnonymously h w)"

text \<open>
  \<^verbatim>\<open>db.collection('users').doc(uid).set(userData)\<close>: a full overwrite of the document
  with that key, or its creation.
\<close>

definition users_doc_set :: "hosted \<Rightarrow> js_string \<Rightarrow> User \<Rightarrow> world \<Rightarrow> (error + unit) \<times> world" where
  "users_doc_set h uid userData w =
     (let w = perform (UsersSet uid userData) w
      in case write_answer h of
           Some e \<Rightarrow> (Inl e, w)
         | None \<Rightarrow> (Inr (), w\<lparr>db_users := AList.update uid userData (db_users w)\<rparr>))"

text \<open>\<^verbatim>\<open>db.collection('users').get()\<close>: the documents of the collection, in stored order.\<close>

definition users_get :: "hosted \<Rightarrow> world \<Rightarrow> (error + User list) \<times> world" where
  "users_get h w =
     (let w = perform UsersGetAll w
      in case read_answer h of
           Some e \<Rightarrow> (Inl e, w)
         | None \<Rightarrow> (Inr (map snd (db_users w)), w))"

text \<open>\<^verbatim>\<open>db.collection('albums').add(albumItem)\<close>: a new document under a generated key.\<close>

definition albums_add :: "hosted \<Rightarrow> album_data \<Rightarrow> world \<Rightarrow> (error + js_string) \<times> world" where
  "albums_add h albumItem w =
     (let w = perform (AlbumsAdd albumItem) w
      in case write_answer h of
           Some e \<Rightarrow> (Inl e, w)
         | None \<Rightarrow> (Inr (generated_id h), w\<lparr>db_albums := db_albums w @ [(generated_id h, albumItem)]\<rparr>))"

section \<open>components/OnboardingScreen\<close>

text \<open>
  The regular expression \<^verbatim>\<open>/^\d{4}-\d{2}-\d{2}$/\<close> as the sequence of its atoms; with
  both anchors and no flag, \<^verbatim>\<open>test\<close> holds when the atoms match the whole string, one
  code unit each.  \<^verbatim>\<open>\d\<close> is the class of the ten ASCII digits.
\<close>

datatype atom = Digit | Literal code_unit

definition isDigit :: "code_unit \<Rightarrow> bool" where
  "isDigit c = (0x30 \<le> c \<and> c \<le> 0x39)"

fun atom_matches :: "atom \<Rightarrow> code_unit \<Rightarrow> bool" where
  "atom_matches Digit c = isDigit c"
| "atom_matches (Literal l) c = (c = l)"

fun regex_test :: "atom list \<Rightarrow> js_string \<Rightarrow> bool" where
  "regex_test [] [] = True"
| "regex_test (a # as) (c # cs) = (atom_matches a c \<and> regex_test as cs)"
| "regex_test [] (c # cs) = False"
| "regex_test (a # as) [] = False"

definition dateRegex :: "atom list" where
  "dateRegex = replicate 4 Digit @ [Literal 0x2D] @ replicate 2 Digit @ [Literal 0x2D] @ replicate 2 Digit"

text \<open>The state of the screen: the two text inputs and the loading flag.\<close>

record onboarding =
  name_input :: js_string
  dob_input :: js_string
  onboarding_isLoading :: bool

text \<open>The \<^verbatim>\<open>try\<close> block of \<^verbatim>\<open>handleSubmit\<close>: it throws (\<open>Inl\<close>) at the first step that fails.\<close>

definition handleSubmit_try :: "hosted \<Rightarrow> onboarding \<Rightarrow> world \<Rightarrow> (error + unit) \<times> world" where
  "handleSubmit_try h s w =
     (case ensureAuthenticated h w of
        (Inl e, w) \<Rightarrow> (Inl e, w)
      | (Inr uid, w) \<Rightarrow>
          (let userData = \<lparr>user_id = uid, name = trim (name_input s), dob = trim (dob_input s)\<rparr>
           in case users_doc_set h uid userData w of
                (Inl e, w) \<Rightarrow> (Inl e, w)
              | (Inr u, w) \<Rightarrow> (Inr (), perform (RouterReplace (str ''/(tabs)/friends'')) w)))"

definition handleSubmit :: "hosted \<Rightarrow> onboarding \<Rightarrow> world \<Rightarrow> onboarding \<times> world" where
  "handleSubmit h s w =
     (if \<not> truthy_string (trim (name_input s)) then
        (s, perform (Alert (str ''Error'') (str ''Please enter your name'')) w)
      else if \<not> truthy_string (trim (dob_input s)) then
        (s, perform (Alert (str ''Error'') (str ''Please enter your date of birth'')) w)
      else if \<not> regex_test dateRegex (dob_input s) then
        (s, perform (Alert (str ''Error'') (str ''Please enter date in YYYY-MM-DD format'')) w)
      else
        (let s = s\<lparr>onboarding_isLoading := True\<rparr>;
             (r, w) = handleSubmit_try h s w;
             w = (case r of
                    Inr u \<Rightarrow> w
                  | Inl error \<Rightarrow>
                      perform (Alert (str ''Error'') (str ''Failed to save your information. Please try again.''))
                        (perform (ConsoleError (str ''Error saving user data:'')) w))
         in (s\<lparr>onboarding_isLoading := False\<rparr>, w)))"

text \<open>
  The date shape as the specification words it: four digits, a hyphen, two digits, a
  hyphen, two digits, and nothing else.
\<close>

definition YYYY_MM_DD :: "js_string \<Rightarrow> bool" where
  "YYYY_MM_DD s =
     (length s = 10 \<and> list_all isDigit (take 4 s) \<and> s ! 4 = 0x2D \<and>
      list_all isDigit (take 2 (drop 5 s)) \<and> s ! 7 = 0x2D \<and> list_all isDigit (drop 8 s))"

section \<open>components/FriendsTab.tsx\<close>

text \<open>
  \<^verbatim>\<open>Array.prototype.sort\<close> with a comparison function.  The sort is stable (ECMA-262
  since 2019): an element goes before another when the comparison is negative, and equal
  elements keep their order.  For a consistent comparison function every stable sort
  returns the list that this insertion sort returns.
\<close>

fun sort_insert :: "('a \<Rightarrow> 'a \<Rightarrow> int) \<Rightarrow> 'a \<Rightarrow> 'a list \<Rightarrow> 'a list" where
  "sort_insert comparefn x [] = [x]"
| "sort_insert comparefn x (y # ys) =
     (if comparefn x y \<le> 0 then x # y # ys else y # sort_insert comparefn x ys)"

fun Array_sort :: "('a \<Rightarrow> 'a \<Rightarrow> int) \<Rightarrow> 'a list \<Rightarrow> 'a list" where
  "Array_sort comparefn [] = []"
| "Array_sort comparefn (x # xs) = sort_insert comparefn x (Array_sort comparefn xs)"

text \<open>
  \<^verbatim>\<open>String.prototype.localeCompare\<close> depends on the locale of the device, so it is a
  parameter.  What the sort needs of it is that it is a consistent comparison: any two
  strings are comparable, and being before-or-equal is transitive.
\<close>

definition consistent_comparison :: "(js_string \<Rightarrow> js_string \<Rightarrow> int) \<Rightarrow> bool" where
  "consistent_comparison localeCompare =
     ((\<forall>a b. localeCompare a b \<le> 0 \<or> localeCompare b a \<le> 0) \<and>
      (\<forall>a b c. localeCompare a b \<le> 0 \<longrightarrow> localeCompare b c \<le> 0 \<longrightarrow> localeCompare a c \<le> 0))"

text \<open>A comparison of that kind to run the model with: code units, lexicographically.\<close>

fun compare_code_units :: "js_string \<Rightarrow> js_string \<Rightarrow> int" where
  "compare_code_units [] [] = 0"
| "compare_code_units [] (b # bs) = - 1"
| "compare_code_units (a # as) [] = 1"
| "compare_code_units (a # as) (b # bs) =
     (if a < b then - 1 else if b < a then 1 else compare_code_units as bs)"

record friends_tab =
  users :: "User list"
  currentUserUID :: "js_string option"
  friends_isLoading :: bool
  friends_error :: "js_string option"

definition fetchUsers :: "(js_string \<Rightarrow> js_string \<Rightarrow> int) \<Rightarrow> hosted \<Rightarrow> friends_tab \<Rightarrow> world \<Rightarrow> friends_tab \<times> world" where
  "fetchUsers localeCompare h s w =
     (let s = s\<lparr>friends_isLoading := True, friends_error := None\<rparr>
      in case users_get h w of
           (Inr usersSnapshot, w) \<Rightarrow>
             (let usersList = foldl (\<lambda>usersList userData. usersList @ [userData]) [] usersSnapshot;
                  usersList = Array_sort (\<lambda>a b. localeCompare (name a) (name b)) usersList
              in (s\<lparr>users := usersList, friends_isLoading := False\<rparr>, w))
         | (Inl err, w) \<Rightarrow>
             (s\<lparr>friends_error := Some (str ''Failed to load friends''), friends_isLoading := False\<rparr>,
              perform (ConsoleError (str ''Error fetching users:'')) w))"

section \<open>components/AlbumTab.tsx\<close>

record album_tab =
  albumItems :: "AlbumItem list"
  currentUser :: "User option"
  album_isLoading :: bool
  isUploading :: bool

text \<open>
  The query \<^verbatim>\<open>db.collection('albums').orderBy('timestamp', 'desc')\<close> is answered by the
  hosted database: the documents of the collection, the larger timestamp first.  Among
  equal timestamps the model keeps the stored order.
\<close>

fun insert_desc :: "js_string \<times> album_data \<Rightarrow> (js_string \<times> album_data) list \<Rightarrow> (js_string \<times> album_data) list" where
  "insert_desc d [] = [d]"
| "insert_desc d (e # es) =
     (if timestamp (snd e) \<le> timestamp (snd d) then d # e # es else e # insert_desc d es)"

definition orderBy_timestamp_desc :: "(js_string \<times> album_data) list \<Rightarrow> (js_string \<times> album_data) list" where
  "orderBy_timestamp_desc docs = foldr insert_desc docs []"

text \<open>
  The first callback of \<^verbatim>\<open>onSnapshot\<close>: every document of the snapshot, in the order of
  the snapshot, becomes \<^verbatim>\<open>{ id: doc.id, ...doc.data() }\<close>.
\<close>

definition album_item :: "js_string \<times> album_data \<Rightarrow> AlbumItem" where
  "album_item doc =
     \<lparr>url = url (snd doc), uploaderName = uploaderName (snd doc), timestamp = timestamp (snd doc),
      media_type = media_type (snd doc), item_id = fst doc\<rparr>"

definition onSnapshot_next :: "(js_string \<times> album_data) list \<Rightarrow> album_tab \<Rightarrow> album_tab" where
  "onSnapshot_next snapshot s =
     (let items = foldl (\<lambda>items doc. items @ [album_item doc]) [] snapshot
      in s\<lparr>albumItems := items, album_isLoading := False\<rparr>)"

text \<open>
  The live query: the callback runs on the initial load and again after every addition to
  the collection.  Each run is listed with the collection it was answered from.
\<close>

fun album_feed :: "(js_string \<times> album_data) list \<Rightarrow> (js_string \<times> album_data) list \<Rightarrow> album_tab
    \<Rightarrow> ((js_string \<times> album_data) list \<times> album_tab) list" where
  "album_feed collection [] s = [(collection, onSnapshot_next (orderBy_timestamp_desc collection) s)]"
| "album_feed collection (a # additions) s =
     (let s' = onSnapshot_next (orderBy_timestamp_desc collection) s
      in (collection, s') # album_feed (collection @ [a]) additions s')"

text \<open>The \<^verbatim>\<open>try\<close> block of \<^verbatim>\<open>uploadMedia\<close>, for the profile that was loaded.\<close>

definition uploadMedia_try :: "hosted \<Rightarrow> js_string \<Rightarrow> resource_type \<Rightarrow> User \<Rightarrow> world \<Rightarrow> (error + unit) \<times> world" where
  "uploadMedia_try h uri type profile w =
     (case ensureAuthenticated h w of
        (Inl e, w) \<Rightarrow> (Inl e, w)
      | (Inr uid, w) \<Rightarrow>
          (let w = perform (UploadToCloudinary uri type) w
           in case uploadToCloudinary (fetch_answer h) of
                Inl e \<Rightarrow> (Inl e, perform (ConsoleError (str ''Error uploading to Cloudinary:'')) w)
              | Inr cloudinaryUrl \<Rightarrow>
                  (let albumItem = \<lparr>url = cloudinaryUrl, uploaderName = name profile,
                                    timestamp = now h, media_type = type\<rparr>
                   in case albums_add h albumItem w of
                        (Inl e, w) \<Rightarrow> (Inl e, w)
                      | (Inr new_id, w) \<Rightarrow>
                          (Inr (), perform (Alert (str ''Success'') (str ''Media uploaded successfully!'')) w))))"

definition uploadMedia :: "hosted \<Rightarrow> js_string \<Rightarrow> resource_type \<Rightarrow> album_tab \<Rightarrow> world \<Rightarrow> album_tab \<times> world" where
  "uploadMedia h uri type s w =
     (case currentUser s of
        None \<Rightarrow> (s, perform (Alert (str ''Error'') (str ''Please complete your profile first'')) w)
      | Some profile \<Rightarrow>
          (let s = s\<lparr>isUploading := True\<rparr>;
               (r, w) = uploadMedia_try h uri type profile w;
               w = (case r of
                      Inr u \<Rightarrow> w
                    | Inl error \<Rightarrow>
                        perform (Alert (str ''Error'') (str ''Failed to upload media. Please try again.''))
                          (perform (ConsoleError (str ''Error uploading media:'')) w))
           in (s\<lparr>isUploading := False\<rparr>, w)))"

section \<open>Example inputs\<close>

definition answer_ok :: "string \<Rightarrow> fetch_outcome" where
  "answer_ok u = Inr \<lparr>ok = True, statusText = str ''OK'', json = Inr \<lparr>result_error = None, secure_url = str u\<rparr>\<rparr>"

definition answer_bad_request :: fetch_outcome where
  "answer_bad_request = Inr \<lparr>ok = False, statusText = str ''Bad Request'', json = Inl (Error [])\<rparr>"

definition batch_one_fails :: "(js_string \<times> nat \<times> fetch_outcome) list" where
  "batch_one_fails =
     [(str ''a.jpg'', 3, answer_ok ''https://cdn/a''),
      (str ''b.jpg'', 1, answer_bad_request),
      (str ''c.jpg'', 2, answer_ok ''https://cdn/c'')]"

definition batch_all_succeed :: "(js_string \<times> nat \<times> fetch_outcome) list" where
  "batch_all_succeed =
     [(str ''a.jpg'', 3, answer_ok ''https://cdn/a''),
      (str ''c.jpg'', 2, answer_ok ''https://cdn/c'')]"

definition width_200_quality_auto :: transformations where
  "width_200_quality_auto =
     \<lparr>width = Some (Integer 200), height = None, quality = Some QAuto, format = None, crop = None\<rparr>"

definition width_0 :: transformations where
  "width_0 = \<lparr>width = Some (Integer 0), height = None, quality = None, format = None, crop = None\<rparr>"

definition world_signed_out :: world where
  "world_signed_out = \<lparr>auth_currentUser = None, db_users = [], db_albums = [], trace = []\<rparr>"

definition world_signed_in :: world where
  "world_signed_in = \<lparr>auth_currentUser = Some (str ''uid-1''), db_users = [], db_albums = [], trace = []\<rparr>"

definition services_up :: hosted where
  "services_up =
     \<lparr>auth_answer = Inr (str ''uid-1''), read_answer = None, write_answer = None,
      generated_id = str ''album-1'', fetch_answer = answer_ok ''https://cdn/a'', now = 1700000000000\<rparr>"

definition services_mint_other :: hosted where
  "services_mint_other = services_up\<lparr>auth_answer := Inr (str ''uid-2'')\<rparr>"

definition form_ada_padded :: onboarding where
  "form_ada_padded =
     \<lparr>name_input = str '' Ada'', dob_input = str ''1990-12-25'', onboarding_isLoading = False\<rparr>"

definition form_feb_30 :: onboarding where
  "form_feb_30 =
     \<lparr>name_input = str ''Ada'', dob_input = str ''2024-02-30'', onboarding_isLoading = False\<rparr>"

definition form_bad_date :: onboarding where
  "form_bad_date =
     \<lparr>name_input = str ''Ada'', dob_input = str ''25/12/1990'', onboarding_isLoading = False\<rparr>"

definition world_two_users :: world where
  "world_two_users =
     \<lparr>auth_currentUser = Some (str ''uid-1''),
      db_users = [(str ''uid-2'', \<lparr>user_id = str ''uid-2'', name = str ''Bob'', dob = str ''1985-03-09''\<rparr>),
                  (str ''uid-1'', \<lparr>user_id = str ''uid-1'', name = str ''Ada'', dob = str ''1990-12-25''\<rparr>)],
      db_albums = [], trace = []\<rparr>"

definition friends_tab_initial :: friends_tab where
  "friends_tab_initial =
     \<lparr>users = [], currentUserUID = None, friends_isLoading = True, friends_error = None\<rparr>"

definition album_tab_initial :: album_tab where
  "album_tab_initial =
     \<lparr>albumItems = [], currentUser = None, album_isLoading = True, isUploading = False\<rparr>"

definition photo_at :: "int \<Rightarrow> album_data" where
  "photo_at t = \<lparr>url = str ''https://cdn/a'', uploaderName = str ''Ada'', timestamp = t, media_type = Image\<rparr>"

definition three_additions :: "(js_string \<times> album_data) list" where
  "three_additions = [(str ''album-1'', photo_at 10), (str ''album-2'', photo_at 30), (str ''album-3'', photo_at 20)]"

section \<open>Properties of the media uploader\<close>

lemma first_rejection_None: "first_rejection ps = None \<longleftrightarrow> (\<forall>p \<in> set ps. \<not> isl (snd p))"
  by (induction ps rule: first_rejection.induct) (auto split: option.splits)

lemma first_rejection_Some: "first_rejection ps = Some (t, e) \<Longrightarrow> (t, Inl e) \<in> set ps"
  by (induction ps arbitrary: t e rule: first_rejection.induct) (auto split: option.splits if_splits)

lemma fulfilled_values_all:
  "\<forall>p \<in> set ps. \<not> isl (snd p) \<Longrightarrow> fulfilled_values ps = map (\<lambda>p. projr (snd p)) ps"
  by (induction ps rule: fulfilled_values.induct) auto

text \<open>
  C5.  \<open>uploadMultipleToCloudinary\<close> is all or nothing.  If the upload of some file \<open>k\<close>
  fails, the call fails with one error, which is the error of one of the failed uploads,
  and no URL is returned.  If every upload succeeds, the call returns one URL for each of
  the \<open>N\<close> files, the \<open>k\<close>-th URL being that of the \<open>k\<close>-th file.
\<close>

theorem uploadMultipleToCloudinary_all_or_nothing:
  "((\<exists>k < length fileUris. isl (uploadToCloudinary (snd (snd (fileUris ! k))))) \<longrightarrow>
      (\<exists>e. uploadMultipleToCloudinary fileUris = Inl e \<and>
           (\<exists>k < length fileUris. uploadToCloudinary (snd (snd (fileUris ! k))) = Inl e))) \<and>
   ((\<forall>k < length fileUris. \<not> isl (uploadToCloudinary (snd (snd (fileUris ! k))))) \<longrightarrow>
      (\<exists>urls. uploadMultipleToCloudinary fileUris = Inr urls \<and> length urls = length fileUris \<and>
           (\<forall>k < length fileUris. uploadToCloudinary (snd (snd (fileUris ! k))) = Inr (urls ! k))))"
proof (intro conjI impI)
  let ?ps = "map (\<lambda>(uri, t, net). (t, uploadToCloudinary net)) fileUris"
  have snd_ps: "\<And>k. k < length fileUris \<Longrightarrow> snd (?ps ! k) = uploadToCloudinary (snd (snd (fileUris ! k)))"
    by (simp add: case_prod_beta)
  {
    assume "\<exists>k < length fileUris. isl (uploadToCloudinary (snd (snd (fileUris ! k))))"
    then obtain k where k: "k < length fileUris" "isl (snd (?ps ! k))"
      using snd_ps by auto
    then have "?ps ! k \<in> set ?ps" by simp
    with k have "first_rejection ?ps \<noteq> None"
      unfolding first_rejection_None by blast
    then obtain t e where te: "first_rejection ?ps = Some (t, e)" by auto
    then have "(t, Inl e) \<in> set ?ps" by (rule first_rejection_Some)
    then obtain j where j: "j < length fileUris" "?ps ! j = (t, Inl e)"
      by (auto simp: in_set_conv_nth)
    then have "uploadToCloudinary (snd (snd (fileUris ! j))) = Inl e"
      using snd_ps[of j] by simp
    with te j show "\<exists>e. uploadMultipleToCloudinary fileUris = Inl e \<and>
           (\<exists>k < length fileUris. uploadToCloudinary (snd (snd (fileUris ! k))) = Inl e)"
      by (auto simp: uploadMultipleToCloudinary_def Promise_all_def)
  }
  {
    assume all: "\<forall>k < length fileUris. \<not> isl (uploadToCloudinary (snd (snd (fileUris ! k))))"
    have ok: "\<forall>p \<in> set ?ps. \<not> isl (snd p)"
    proof (rule ballI)
      fix p assume "p \<in> set ?ps"
      then obtain i where i: "i < length fileUris" "?ps ! i = p"
        by (auto simp: in_set_conv_nth)
      with snd_ps[of i] all show "\<not> isl (snd p)" by auto
    qed
    then have none: "first_rejection ?ps = None"
      by (simp only: first_rejection_None)
    have vals: "fulfilled_values ?ps = map (\<lambda>p. projr (snd p)) ?ps"
      using ok by (rule fulfilled_values_all)
    have res: "uploadMultipleToCloudinary fileUris = Inr (map (\<lambda>p. projr (snd p)) ?ps)"
      by (simp add: uploadMultipleToCloudinary_def Promise_all_def none vals del: map_map)
    show "\<exists>urls. uploadMultipleToCloudinary fileUris = Inr urls \<and> length urls = length fileUris \<and>
           (\<forall>k < length fileUris. uploadToCloudinary (snd (snd (fileUris ! k))) = Inr (urls ! k))"
    proof (intro exI conjI allI impI)
      show "uploadMultipleToCloudinary fileUris = Inr (map (\<lambda>p. projr (snd p)) ?ps)" by (rule res)
      show "length (map (\<lambda>p. projr (snd p)) ?ps) = length fileUris" by simp
    next
      fix k assume k: "k < length fileUris"
      with all have "\<not> isl (uploadToCloudinary (snd (snd (fileUris ! k))))" by blast
      then show "uploadToCloudinary (snd (snd (fileUris ! k))) = Inr (map (\<lambda>p. projr (snd p)) ?ps ! k)"
        using k snd_ps[of k] by (cases "uploadToCloudinary (snd (snd (fileUris ! k)))") auto
    qed
  }
qed

theorem uploadMultipleToCloudinary_all_or_nothing_witness:
  "(\<exists>k < length batch_one_fails. isl (uploadToCloudinary (snd (snd (batch_one_fails ! k))))) \<and>
   uploadMultipleToCloudinary batch_one_fails = Inl (Error (str ''Upload failed: Bad Request'')) \<and>
   list_all (\<lambda>f. \<not> isl (uploadToCloudinary (snd (snd f)))) batch_all_succeed \<and>
   uploadMultipleToCloudinary batch_all_succeed = Inr [str ''https://cdn/a'', str ''https://cdn/c'']"
proof -
  have h: "\<exists>k < length batch_one_fails. isl (uploadToCloudinary (snd (snd (batch_one_fails ! k))))"
    by (rule exI[of _ 1]) (simp add: batch_one_fails_def answer_bad_request_def uploadToCloudinary_def)
  from uploadMultipleToCloudinary_all_or_nothing[of batch_one_fails, THEN conjunct1, THEN mp, OF h]
  obtain e where e: "uploadMultipleToCloudinary batch_one_fails = Inl e"
     "\<exists>k < length batch_one_fails. uploadToCloudinary (snd (snd (batch_one_fails ! k))) = Inl e" by blast
  from e(2) have e_eq: "e = Error (str ''Upload failed: Bad Request'')"
    by (auto simp: batch_one_fails_def answer_ok_def answer_bad_request_def uploadToCloudinary_def str_def
                   less_Suc_eq nth_Cons')
  have g: "\<forall>k < length batch_all_succeed. \<not> isl (uploadToCloudinary (snd (snd (batch_all_succeed ! k))))"
    by (simp add: batch_all_succeed_def answer_ok_def uploadToCloudinary_def less_Suc_eq nth_Cons')
  from uploadMultipleToCloudinary_all_or_nothing[of batch_all_succeed, THEN conjunct2, THEN mp, OF g]
  obtain urls where u: "uploadMultipleToCloudinary batch_all_succeed = Inr urls"
     "length urls = length batch_all_succeed"
     "\<forall>k < length batch_all_succeed. uploadToCloudinary (snd (snd (batch_all_succeed ! k))) = Inr (urls ! k)"
    by blast
  from u(3) have "urls ! 0 = str ''https://cdn/a''" "urls ! 1 = str ''https://cdn/c''"
    by (auto simp: batch_all_succeed_def answer_ok_def uploadToCloudinary_def)
  with u(2) have "urls = [str ''https://cdn/a'', str ''https://cdn/c'']"
    by (simp add: batch_all_succeed_def list_eq_iff_nth_eq less_Suc_eq nth_Cons')
  moreover have "list_all (\<lambda>f. \<not> isl (uploadToCloudinary (snd (snd f)))) batch_all_succeed"
    by (simp add: batch_all_succeed_def answer_ok_def uploadToCloudinary_def)
  ultimately show ?thesis using e(1) e_eq h u(1) by simp
qed

lemma push_if_append:
  "push_if truthy toString prefix field transforms =
     transforms @ (case truthy_value truthy toString field of None \<Rightarrow> [] | Some text \<Rightarrow> [str prefix @ text])"
  by (simp add: push_if_def truthy_value_def split: option.splits)

text \<open>
  C6, as the claim states it, fails: an option that is present with the value \<open>0\<close>
  contributes no segment.  With \<^verbatim>\<open>{width: 0}\<close> the code returns the URL without a
  transform path, where the segments of the present options would be \<^verbatim>\<open>w_0\<close>.
\<close>

theorem getOptimizedImageUrl_present_zero_counterexample:
  "getOptimizedImageUrl (str ''abc123'') (Some width_0) =
     str ''https://res.cloudinary.com/your-cloud-name/image/upload/abc123'' \<and>
   optimizedUrl_spec (str ''abc123'') width_0 =
     str ''https://res.cloudinary.com/your-cloud-name/image/upload/w_0/abc123'' \<and>
   getOptimizedImageUrl (str ''abc123'') (Some width_0) \<noteq> optimizedUrl_spec (str ''abc123'') width_0"
  by (simp add: getOptimizedImageUrl_def optimizedUrl_spec_def present_def push_if_def width_0_def
                CLOUD_NAME_def str_def)

text \<open>
  C6, amended.  For every publicId and options record, \<open>getOptimizedImageUrl\<close> builds the
  URL from the segments of the options that are present and truthy (a number that is \<open>0\<close>
  or \<open>NaN\<close> is skipped like an absent option), in the fixed order width, height,
  quality, format, crop, joined by commas, and validates no value otherwise; with no
  options record, or with no such segment, the transform path is left out.  In
  particular \<^verbatim>\<open>{width: 200, quality: "auto"}\<close> on \<^verbatim>\<open>abc123\<close> gives exactly
  \<^verbatim>\<open>https://res.cloudinary.com/your-cloud-name/image/upload/w_200,q_auto/abc123\<close>.
\<close>

theorem getOptimizedImageUrl_truthy_segments:
  "getOptimizedImageUrl publicId (Some options) =
     str ''https://res.cloudinary.com/'' @ CLOUD_NAME @ str ''/image/upload''
       @ (if truthy_segments options = [] then []
          else str ''/'' @ join (str '','') (truthy_segments options))
       @ str ''/'' @ publicId \<and>
   getOptimizedImageUrl publicId None =
     str ''https://res.cloudinary.com/'' @ CLOUD_NAME @ str ''/image/upload'' @ str ''/'' @ publicId \<and>
   getOptimizedImageUrl (str ''abc123'') (Some width_200_quality_auto) =
     str ''https://res.cloudinary.com/your-cloud-name/image/upload/w_200,q_auto/abc123''"
proof (intro conjI)
  show "getOptimizedImageUrl publicId (Some options) =
     str ''https://res.cloudinary.com/'' @ CLOUD_NAME @ str ''/image/upload''
       @ (if truthy_segments options = [] then []
          else str ''/'' @ join (str '','') (truthy_segments options))
       @ str ''/'' @ publicId"
    unfolding getOptimizedImageUrl_def truthy_segments_def Let_def
    by (simp add: push_if_append split: option.splits)
  show "getOptimizedImageUrl publicId None =
     str ''https://res.cloudinary.com/'' @ CLOUD_NAME @ str ''/image/upload'' @ str ''/'' @ publicId"
    by (simp add: getOptimizedImageUrl_def)
  show "getOptimizedImageUrl (str ''abc123'') (Some width_200_quality_auto) =
     str ''https://res.cloudinary.com/your-cloud-name/image/upload/w_200,q_auto/abc123''"
    by (simp add: getOptimizedImageUrl_def push_if_def width_200_quality_auto_def CLOUD_NAME_def str_def)
qed

theorem getOptimizedImageUrl_truthy_segments_witness:
  "getOptimizedImageUrl (str ''abc123'') (Some width_200_quality_auto) =
     str ''https://res.cloudinary.com/your-cloud-name/image/upload/w_200,q_auto/abc123'' \<and>
   truthy_segments width_200_quality_auto = [str ''w_200'', str ''q_auto''] \<and>
   truthy_segments width_0 = []"
  using getOptimizedImageUrl_truthy_segments [of "str ''abc123''" width_200_quality_auto, THEN conjunct1]
  by (simp add: truthy_segments_def truthy_value_def width_200_quality_auto_def width_0_def
                CLOUD_NAME_def str_def)

text \<open>
  C10.  For every publicId and whatever the other options are, a width, a height or a
  quality equal to \<open>0\<close> gives exactly the URL that the same call gives with that option
  omitted.
\<close>

theorem getOptimizedImageUrl_zero_as_omitted:
  "getOptimizedImageUrl publicId (Some (options\<lparr>width := Some (Integer 0)\<rparr>))
     = getOptimizedImageUrl publicId (Some (options\<lparr>width := None\<rparr>)) \<and>
   getOptimizedImageUrl publicId (Some (options\<lparr>height := Some (Integer 0)\<rparr>))
     = getOptimizedImageUrl publicId (Some (options\<lparr>height := None\<rparr>)) \<and>
   getOptimizedImageUrl publicId (Some (options\<lparr>quality := Some (QNumber (Integer 0))\<rparr>))
     = getOptimizedImageUrl publicId (Some (options\<lparr>quality := None\<rparr>))"
  by (simp add: getOptimizedImageUrl_def push_if_def)

section \<open>Properties of the identity bridge\<close>

text \<open>
  C4.  When a call of \<open>ensureAuthenticated\<close> returns an identity (a non-empty uid, as
  every uid of the auth service is) and no sign-out follows, a second call returns the
  same identity, whatever the auth service would answer then: the second call does not
  contact it and leaves the signed-in user as it is.  If an identity existed before the
  first call, that identity is the one returned and nothing is minted; if none existed,
  the identity is the one the service minted during the first call.
\<close>

theorem ensureAuthenticated_idempotent:
  assumes "fst (ensureAuthenticated h1 w) = Inr uid" and "uid \<noteq> []"
  shows "fst (ensureAuthenticated h2 (snd (ensureAuthenticated h1 w))) = Inr uid \<and>
         auth_currentUser (snd (ensureAuthenticated h2 (snd (ensureAuthenticated h1 w)))) = Some uid \<and>
         performed (snd (ensureAuthenticated h1 w)) (snd (ensureAuthenticated h2 (snd (ensureAuthenticated h1 w))))
           = [EnsureAuthenticated] \<and>
         (\<forall>existing. auth_currentUser w = Some existing \<and> existing \<noteq> [] \<longrightarrow>
            uid = existing \<and> performed w (snd (ensureAuthenticated h1 w)) = [EnsureAuthenticated]) \<and>
         (auth_currentUser w = None \<longrightarrow>
            auth_answer h1 = Inr uid \<and>
            performed w (snd (ensureAuthenticated h1 w)) = [EnsureAuthenticated, SignInAnonymously])"
  using assms
  by (auto simp: ensureAuthenticated_def signInAnonymously_def getCurrentUserUID_def truthy_string_def
                 perform_def performed_def Let_def split: option.splits sum.splits if_splits)

theorem ensureAuthenticated_idempotent_witness:
  "fst (ensureAuthenticated services_up world_signed_out) = Inr (str ''uid-1'') \<and>
   str ''uid-1'' \<noteq> [] \<and>
   auth_answer services_mint_other = Inr (str ''uid-2'') \<and>
   fst (ensureAuthenticated services_mint_other (snd (ensureAuthenticated services_up world_signed_out)))
     = Inr (str ''uid-1'')"
proof -
  have first: "fst (ensureAuthenticated services_up world_signed_out) = Inr (str ''uid-1'')"
    by (simp add: ensureAuthenticated_def signInAnonymously_def getCurrentUserUID_def perform_def
                  services_up_def world_signed_out_def)
  have nonempty: "str ''uid-1'' \<noteq> []"
    by (simp add: str_def)
  have other: "auth_answer services_mint_other = Inr (str ''uid-2'')"
    by (simp add: services_mint_other_def)
  from ensureAuthenticated_idempotent[OF first nonempty, of services_mint_other] first nonempty other
  show ?thesis by simp
qed

section \<open>Properties of the onboarding form\<close>

lemma regex_test_Nil: "regex_test [] s \<longleftrightarrow> s = []"
  by (cases s) auto

lemma regex_test_Cons:
  "regex_test (a # as) s \<longleftrightarrow> (\<exists>c cs. s = c # cs \<and> atom_matches a c \<and> regex_test as cs)"
  by (cases s) auto

lemma dateRegex_shape: "regex_test dateRegex s \<longleftrightarrow> YYYY_MM_DD s"
  by (auto simp: YYYY_MM_DD_def dateRegex_def regex_test_Cons regex_test_Nil numeral_eq_Suc length_Suc_conv)

lemma isDigit_not_isWhiteSpace: "isDigit c \<Longrightarrow> \<not> isWhiteSpace c"
  by (auto simp: isDigit_def isWhiteSpace_def word_le_nat_alt)

lemma trim_no_outer_whitespace:
  assumes "s \<noteq> []" and "\<not> isWhiteSpace (hd s)" and "\<not> isWhiteSpace (last s)"
  shows "trim s = s"
proof -
  have front: "dropWhile isWhiteSpace s = s"
    using assms(2) by (simp add: dropWhile_eq_self_iff)
  have "hd (rev s) = last s"
    using assms(1) by (simp add: hd_rev)
  with assms(3) have rear: "dropWhile isWhiteSpace (rev s) = rev s"
    by (simp add: dropWhile_eq_self_iff)
  show ?thesis
    by (simp add: trim_def front rear)
qed

lemma trim_YYYY_MM_DD:
  assumes shape: "YYYY_MM_DD s"
  shows "trim s = s"
proof -
  from shape have len: "length s = 10" by (simp add: YYYY_MM_DD_def)
  then have ne: "s \<noteq> []" by auto
  from shape have "isDigit (s ! 0)" "isDigit (s ! 9)"
    by (auto simp: YYYY_MM_DD_def numeral_eq_Suc length_Suc_conv)
  with ne len have "isDigit (hd s)" "isDigit (last s)"
    by (simp_all add: hd_conv_nth last_conv_nth)
  then show ?thesis
    using ne by (intro trim_no_outer_whitespace isDigit_not_isWhiteSpace)
qed

lemma YYYY_MM_DD_nonempty: "YYYY_MM_DD s \<Longrightarrow> trim s \<noteq> []"
  using trim_YYYY_MM_DD[of s] by (auto simp: YYYY_MM_DD_def)

lemma performed_perform: "performed w (perform e w) = [e]"
  by (simp add: performed_def perform_def)

lemma handleSubmit_valid:
  "trim (name_input s) \<noteq> [] \<Longrightarrow> YYYY_MM_DD (dob_input s) \<Longrightarrow>
     handleSubmit h s w =
       (let (r, w') = handleSubmit_try h (s\<lparr>onboarding_isLoading := True\<rparr>) w
        in (s\<lparr>onboarding_isLoading := False\<rparr>,
            case r of
              Inr u \<Rightarrow> w'
            | Inl error \<Rightarrow>
                perform (Alert (str ''Error'') (str ''Failed to save your information. Please try again.''))
                  (perform (ConsoleError (str ''Error saving user data:'')) w')))"
  by (simp add: handleSubmit_def truthy_string_def dateRegex_shape YYYY_MM_DD_nonempty Let_def
           split: prod.splits)

lemma handleSubmit_invalid:
  "trim (name_input s) = [] \<or> trim (dob_input s) = [] \<or> \<not> YYYY_MM_DD (dob_input s) \<Longrightarrow>
     \<exists>message. handleSubmit h s w = (s, perform (Alert (str ''Error'') message) w)"
  by (auto simp: handleSubmit_def truthy_string_def dateRegex_shape)

lemma ensureAuthenticated_trace:
  "\<exists>rest. trace (snd (ensureAuthenticated h w)) = trace w @ EnsureAuthenticated # rest \<and>
          filter is_write rest = []"
  by (auto simp: ensureAuthenticated_def signInAnonymously_def getCurrentUserUID_def perform_def Let_def
           split: option.splits sum.splits)

lemma ensureAuthenticated_db:
  "db_users (snd (ensureAuthenticated h w)) = db_users w"
  by (auto simp: ensureAuthenticated_def signInAnonymously_def getCurrentUserUID_def perform_def Let_def
           split: option.splits sum.splits)

lemma handleSubmit_try_trace:
  "\<exists>rest. trace (snd (handleSubmit_try h s w)) = trace w @ EnsureAuthenticated # rest"
proof (cases "ensureAuthenticated h w")
  case (Pair r w1)
  from ensureAuthenticated_trace[of h w] Pair
  obtain rest where rest: "trace w1 = trace w @ EnsureAuthenticated # rest" by auto
  show ?thesis
    using Pair rest
    by (cases r) (auto simp: handleSubmit_try_def users_doc_set_def perform_def Let_def split: option.splits)
qed

lemma one_document_per_key:
  "distinct (map fst al) \<Longrightarrow> length (filter (\<lambda>doc. fst doc = k) (AList.update k v al)) = 1"
proof (induction al)
  case Nil
  then show ?case by simp
next
  case (Cons d al)
  have absent: "k \<notin> fst ` set al \<Longrightarrow> filter (\<lambda>doc. fst doc = k) al = []"
    by (auto simp: filter_empty_conv)
  from Cons absent show ?case
    by (cases d) auto
qed

text \<open>
  C7.  The date check of the onboarding form is a check of the format alone.  For a form
  whose name is not blank, \<open>handleSubmit\<close> goes on to the identity bridge exactly when
  the date of birth has the shape of four digits, a hyphen, two digits, a hyphen and two
  digits, and a date of any other shape ends in an alert and nothing else.  No calendar is
  consulted: the 30th of February has the shape and is accepted.
\<close>

theorem handleSubmit_date_check_is_shape_only:
  assumes valid_name: "trim (name_input s) \<noteq> []"
  shows "(EnsureAuthenticated \<in> set (performed w (snd (handleSubmit h s w)))) = YYYY_MM_DD (dob_input s) \<and>
     (\<not> YYYY_MM_DD (dob_input s) \<longrightarrow>
        (\<exists>message. performed w (snd (handleSubmit h s w)) = [Alert (str ''Error'') message]))"
proof (cases "YYYY_MM_DD (dob_input s)")
  case True
  obtain r w' where tr: "handleSubmit_try h (s\<lparr>onboarding_isLoading := True\<rparr>) w = (r, w')"
    by (cases "handleSubmit_try h (s\<lparr>onboarding_isLoading := True\<rparr>) w")
  from handleSubmit_try_trace[of h "s\<lparr>onboarding_isLoading := True\<rparr>" w] tr
  obtain rest where "trace w' = trace w @ EnsureAuthenticated # rest" by auto
  then have "EnsureAuthenticated \<in> set (performed w (snd (handleSubmit h s w)))"
    using tr by (cases r) (simp_all add: handleSubmit_valid[OF valid_name True] performed_def perform_def)
  with True show ?thesis by simp
next
  case False
  with handleSubmit_invalid[of s h w]
  obtain message where "handleSubmit h s w = (s, perform (Alert (str ''Error'') message) w)" by auto
  then have "performed w (snd (handleSubmit h s w)) = [Alert (str ''Error'') message]"
    by (simp add: performed_perform)
  with False show ?thesis by auto
qed

theorem handleSubmit_date_check_is_shape_only_witness:
  "trim (name_input form_feb_30) \<noteq> [] \<and>
   dob_input form_feb_30 = str ''2024-02-30'' \<and>
   YYYY_MM_DD (dob_input form_feb_30) \<and>
   EnsureAuthenticated \<in> set (performed world_signed_out (snd (handleSubmit services_up form_feb_30 world_signed_out))) \<and>
   db_users (snd (handleSubmit services_up form_feb_30 world_signed_out)) =
     [(str ''uid-1'', \<lparr>user_id = str ''uid-1'', name = str ''Ada'', dob = str ''2024-02-30''\<rparr>)]"
proof -
  have valid_name: "trim (name_input form_feb_30) \<noteq> []"
    by (simp add: form_feb_30_def trim_def isWhiteSpace_def str_def)
  have shape: "YYYY_MM_DD (dob_input form_feb_30)"
    by (simp add: form_feb_30_def YYYY_MM_DD_def isDigit_def str_def)
  have name_kept: "trim (name_input form_feb_30) = str ''Ada''"
    by (simp add: form_feb_30_def trim_def isWhiteSpace_def str_def)
  have stored: "db_users (snd (handleSubmit services_up form_feb_30 world_signed_out)) =
     [(str ''uid-1'', \<lparr>user_id = str ''uid-1'', name = str ''Ada'', dob = str ''2024-02-30''\<rparr>)]"
    by (simp add: handleSubmit_valid[OF valid_name shape] handleSubmit_try_def ensureAuthenticated_def
          signInAnonymously_def getCurrentUserUID_def users_doc_set_def perform_def
          services_up_def world_signed_out_def name_kept trim_YYYY_MM_DD[OF shape])
       (simp add: form_feb_30_def Let_def)
  from handleSubmit_date_check_is_shape_only[OF valid_name, of world_signed_out services_up] shape
  have "EnsureAuthenticated \<in> set (performed world_signed_out (snd (handleSubmit services_up form_feb_30 world_signed_out)))"
    by simp
  with valid_name shape stored show ?thesis
    by (simp add: form_feb_30_def)
qed

text \<open>
  C8.  A submission that fails validation (a blank name, a blank date of birth, or a date
  that has not the shape YYYY-MM-DD) returns before anything leaves the screen: the one
  effect of \<open>handleSubmit\<close> is an error alert, so there is no call of
  \<open>ensureAuthenticated\<close> and no database write, and the screen state, the signed-in user
  and both collections are as they were.
\<close>

theorem handleSubmit_validation_failure_stays_local:
  assumes "trim (name_input s) = [] \<or> trim (dob_input s) = [] \<or> \<not> YYYY_MM_DD (dob_input s)"
  shows "\<exists>message.
           handleSubmit h s w = (s, w\<lparr>trace := trace w @ [Alert (str ''Error'') message]\<rparr>) \<and>
           performed w (snd (handleSubmit h s w)) = [Alert (str ''Error'') message]"
proof -
  from handleSubmit_invalid[OF assms, of h w]
  obtain message where m: "handleSubmit h s w = (s, perform (Alert (str ''Error'') message) w)" ..
  then have "performed w (snd (handleSubmit h s w)) = [Alert (str ''Error'') message]"
    by (simp add: performed_perform)
  with m show ?thesis
    by (auto simp: perform_def)
qed

theorem handleSubmit_validation_failure_stays_local_witness:
  "\<not> YYYY_MM_DD (dob_input form_bad_date) \<and>
   handleSubmit services_up form_bad_date world_signed_out =
     (form_bad_date,
      world_signed_out\<lparr>trace := [Alert (str ''Error'') (str ''Please enter date in YYYY-MM-DD format'')]\<rparr>)"
proof -
  have bad: "\<not> YYYY_MM_DD (dob_input form_bad_date)"
    by (simp add: form_bad_date_def YYYY_MM_DD_def isDigit_def str_def)
  then have hyp: "trim (name_input form_bad_date) = [] \<or> trim (dob_input form_bad_date) = [] \<or>
      \<not> YYYY_MM_DD (dob_input form_bad_date)"
    by simp
  from handleSubmit_validation_failure_stays_local[OF hyp, of services_up world_signed_out]
  obtain message where m:
    "handleSubmit services_up form_bad_date world_signed_out =
       (form_bad_date, world_signed_out\<lparr>trace := trace world_signed_out @ [Alert (str ''Error'') message]\<rparr>)"
    by blast
  have "trim (name_input form_bad_date) \<noteq> []" "trim (dob_input form_bad_date) \<noteq> []"
    by (simp_all add: form_bad_date_def trim_def isWhiteSpace_def str_def)
  with bad have "handleSubmit services_up form_bad_date world_signed_out =
      (form_bad_date, perform (Alert (str ''Error'') (str ''Please enter date in YYYY-MM-DD format'')) world_signed_out)"
    by (simp add: handleSubmit_def truthy_string_def dateRegex_shape)
  with m bad show ?thesis
    by (simp add: perform_def world_signed_out_def)
qed

text \<open>
  C1, as the claim states it, fails: the stored name is the trimmed name, not the value as
  it was entered.  A user who is signed in as \<^verbatim>\<open>uid-1\<close> and enters the name \<^verbatim>\<open>" Ada"\<close>
  and the date \<^verbatim>\<open>1990-12-25\<close> gets the profile with the name \<^verbatim>\<open>"Ada"\<close>.
\<close>

theorem handleSubmit_stores_trimmed_name_counterexample:
  "trim (name_input form_ada_padded) \<noteq> [] \<and>
   YYYY_MM_DD (dob_input form_ada_padded) \<and>
   fst (ensureAuthenticated services_up world_signed_in) = Inr (str ''uid-1'') \<and>
   db_users (snd (handleSubmit services_up form_ada_padded world_signed_in)) =
     [(str ''uid-1'', \<lparr>user_id = str ''uid-1'', name = str ''Ada'', dob = str ''1990-12-25''\<rparr>)] \<and>
   name_input form_ada_padded = str '' Ada'' \<and>
   str ''Ada'' \<noteq> name_input form_ada_padded"
proof -
  have valid_name: "trim (name_input form_ada_padded) \<noteq> []"
    by (simp add: form_ada_padded_def trim_def isWhiteSpace_def str_def)
  have shape: "YYYY_MM_DD (dob_input form_ada_padded)"
    by (simp add: form_ada_padded_def YYYY_MM_DD_def isDigit_def str_def)
  have trimmed: "trim (name_input form_ada_padded) = str ''Ada''"
    by (simp add: form_ada_padded_def trim_def isWhiteSpace_def str_def)
  have auth: "fst (ensureAuthenticated services_up world_signed_in) = Inr (str ''uid-1'')"
    by (simp add: ensureAuthenticated_def getCurrentUserUID_def truthy_string_def perform_def
                  world_signed_in_def str_def)
  have stored: "db_users (snd (handleSubmit services_up form_ada_padded world_signed_in)) =
     [(str ''uid-1'', \<lparr>user_id = str ''uid-1'', name = str ''Ada'', dob = str ''1990-12-25''\<rparr>)]"
    unfolding handleSubmit_valid[OF valid_name shape]
    by (simp add: handleSubmit_try_def ensureAuthenticated_def
          getCurrentUserUID_def truthy_string_def users_doc_set_def perform_def Let_def
          services_up_def world_signed_in_def form_ada_padded_def trim_def isWhiteSpace_def str_def)
  have differs: "str ''Ada'' \<noteq> name_input form_ada_padded"
    by (simp add: form_ada_padded_def str_def)
  from valid_name shape auth stored differs show ?thesis
    by (simp add: form_ada_padded_def)
qed

text \<open>
  C1, amended.  For every submission with a name whose trimmed value is non-empty and a
  date of birth of the shape YYYY-MM-DD, for which \<open>ensureAuthenticated\<close> returns an
  identity, \<open>handleSubmit\<close> issues exactly one database write: the profile document of
  the \<^verbatim>\<open>users\<close> collection keyed by that identity, whose \<^verbatim>\<open>id\<close> is the identity, whose
  \<^verbatim>\<open>name\<close> is the trimmed name and whose \<^verbatim>\<open>dob\<close> is the date exactly as entered.  When
  the database accepts the write, the collection holds this document under the identity
  and, its keys being distinct before, it holds exactly one document under it.
\<close>

theorem handleSubmit_writes_profile:
  assumes valid_name: "trim (name_input s) \<noteq> []" and shape: "YYYY_MM_DD (dob_input s)"
      and auth: "fst (ensureAuthenticated h w) = Inr uid"
  shows "filter is_write (performed w (snd (handleSubmit h s w)))
           = [UsersSet uid \<lparr>user_id = uid, name = trim (name_input s), dob = dob_input s\<rparr>] \<and>
         (write_answer h = None \<longrightarrow>
            db_users (snd (handleSubmit h s w))
              = AList.update uid \<lparr>user_id = uid, name = trim (name_input s), dob = dob_input s\<rparr> (db_users w) \<and>
            map_of (db_users (snd (handleSubmit h s w))) uid
              = Some \<lparr>user_id = uid, name = trim (name_input s), dob = dob_input s\<rparr> \<and>
            (distinct (map fst (db_users w)) \<longrightarrow>
               length (filter (\<lambda>doc. fst doc = uid) (db_users (snd (handleSubmit h s w)))) = 1))"
proof -
  let ?doc = "\<lparr>user_id = uid, name = trim (name_input s), dob = dob_input s\<rparr>"
  obtain w1 where ea: "ensureAuthenticated h w = (Inr uid, w1)"
    using auth by (cases "ensureAuthenticated h w") auto
  from ensureAuthenticated_trace[of h w] ea
  obtain rest where rest: "trace w1 = trace w @ EnsureAuthenticated # rest" "filter is_write rest = []"
    by auto
  from ensureAuthenticated_db[of h w] ea have db: "db_users w1 = db_users w" by simp
  have writes: "filter is_write (performed w (snd (handleSubmit h s w))) = [UsersSet uid ?doc]"
    using ea rest
    by (auto simp: handleSubmit_valid[OF valid_name shape] handleSubmit_try_def users_doc_set_def
                   perform_def performed_def Let_def trim_YYYY_MM_DD[OF shape]
             split: option.splits)
  have stored: "db_users (snd (handleSubmit h s w)) = AList.update uid ?doc (db_users w)"
    if "write_answer h = None"
    using ea db that
    by (auto simp: handleSubmit_valid[OF valid_name shape] handleSubmit_try_def users_doc_set_def
                   perform_def Let_def trim_YYYY_MM_DD[OF shape])
  show ?thesis
    using writes stored
    by (auto simp: update_conv' one_document_per_key)
qed

theorem handleSubmit_writes_profile_witness:
  "trim (name_input form_ada_padded) \<noteq> [] \<and>
   YYYY_MM_DD (dob_input form_ada_padded) \<and>
   fst (ensureAuthenticated services_up world_signed_out) = Inr (str ''uid-1'') \<and>
   write_answer services_up = None \<and>
   distinct (map fst (db_users world_signed_out)) \<and>
   filter is_write (performed world_signed_out (snd (handleSubmit services_up form_ada_padded world_signed_out)))
     = [UsersSet (str ''uid-1'') \<lparr>user_id = str ''uid-1'', name = str ''Ada'', dob = str ''1990-12-25''\<rparr>] \<and>
   db_users (snd (handleSubmit services_up form_ada_padded world_signed_out))
     = [(str ''uid-1'', \<lparr>user_id = str ''uid-1'', name = str ''Ada'', dob = str ''1990-12-25''\<rparr>)]"
proof -
  have valid_name: "trim (name_input form_ada_padded) \<noteq> []"
    by (simp add: form_ada_padded_def trim_def isWhiteSpace_def str_def)
  have shape: "YYYY_MM_DD (dob_input form_ada_padded)"
    by (simp add: form_ada_padded_def YYYY_MM_DD_def isDigit_def str_def)
  have trimmed: "trim (name_input form_ada_padded) = str ''Ada''"
    by (simp add: form_ada_padded_def trim_def isWhiteSpace_def str_def)
  have entered: "dob_input form_ada_padded = str ''1990-12-25''"
    by (simp add: form_ada_padded_def)
  have auth: "fst (ensureAuthenticated services_up world_signed_out) = Inr (str ''uid-1'')"
    by (simp add: ensureAuthenticated_def signInAnonymously_def getCurrentUserUID_def perform_def
                  services_up_def world_signed_out_def)
  have accepted: "write_answer services_up = None"
    by (simp add: services_up_def)
  have keys: "distinct (map fst (db_users world_signed_out))" and empty: "db_users world_signed_out = []"
    by (simp_all add: world_signed_out_def)
  from handleSubmit_writes_profile[OF valid_name shape auth] accepted
  show ?thesis
    using valid_name shape auth keys
    by (simp add: trimmed entered empty)
qed

section \<open>Properties of the roster\<close>

lemma foldl_push: "foldl (\<lambda>acc x. acc @ [f x]) acc xs = acc @ map f xs"
  by (induction xs arbitrary: acc) auto

lemma foldl_push_all: "foldl (\<lambda>acc x. acc @ [x]) [] xs = xs"
  using foldl_push[of "\<lambda>x. x" "[]" xs] by simp

lemma set_sort_insert: "set (sort_insert c x xs) = insert x (set xs)"
  by (induction xs) auto

lemma mset_sort_insert: "mset (sort_insert c x xs) = add_mset x (mset xs)"
  by (induction xs) auto

lemma mset_Array_sort: "mset (Array_sort c xs) = mset xs"
  by (induction xs) (auto simp: mset_sort_insert)

lemma sorted_sort_insert:
  assumes total: "\<And>a b. c a b \<le> 0 \<or> c b a \<le> 0"
      and trans: "\<And>a b d. c a b \<le> 0 \<Longrightarrow> c b d \<le> 0 \<Longrightarrow> c a d \<le> 0"
  shows "sorted_wrt (\<lambda>a b. c a b \<le> 0) xs \<Longrightarrow> sorted_wrt (\<lambda>a b. c a b \<le> (0::int)) (sort_insert c x xs)"
proof (induction xs)
  case Nil
  then show ?case by simp
next
  case (Cons y ys)
  show ?case
  proof (cases "c x y \<le> 0")
    case True
    with Cons.prems trans show ?thesis by auto
  next
    case False
    with total[of x y] have "c y x \<le> 0" by simp
    with False Cons show ?thesis by (auto simp: set_sort_insert)
  qed
qed

lemma sorted_Array_sort:
  assumes total: "\<And>a b. c a b \<le> 0 \<or> c b a \<le> 0"
      and trans: "\<And>a b d. c a b \<le> 0 \<Longrightarrow> c b d \<le> 0 \<Longrightarrow> c a d \<le> 0"
  shows "sorted_wrt (\<lambda>a b. c a b \<le> (0::int)) (Array_sort c xs)"
  by (induction xs) (auto intro: sorted_sort_insert[OF total trans])

lemma compare_code_units_total: "compare_code_units a b \<le> 0 \<or> compare_code_units b a \<le> 0"
  by (induction a b rule: compare_code_units.induct) auto

lemma compare_code_units_trans:
  "compare_code_units a b \<le> 0 \<Longrightarrow> compare_code_units b c \<le> 0 \<Longrightarrow> compare_code_units a c \<le> 0"
proof (induction a b arbitrary: c rule: compare_code_units.induct)
  case 1
  then show ?case by simp
next
  case (2 b bs)
  then show ?case by (cases c) (auto split: if_splits)
next
  case (3 a as)
  then show ?case by simp
next
  case (4 a as b bs)
  then show ?case by (cases c) (auto split: if_splits)
qed

lemma consistent_compare_code_units: "consistent_comparison compare_code_units"
  unfolding consistent_comparison_def
  using compare_code_units_total compare_code_units_trans by blast

text \<open>
  C2.  When the fetch of the \<^verbatim>\<open>users\<close> collection succeeds, \<open>fetchUsers\<close> stores
  the fetched profiles, all of them and no others, sorted non-decreasing by name under
  \<open>localeCompare\<close>, for any consistent \<open>localeCompare\<close> and any collection; no error is
  set, and for the empty collection the stored list is empty.
\<close>

theorem fetchUsers_sorted_by_name:
  assumes cmp: "consistent_comparison localeCompare" and fetched: "read_answer h = None"
  shows "sorted_wrt (\<lambda>a b. localeCompare (name a) (name b) \<le> 0) (users (fst (fetchUsers localeCompare h s w))) \<and>
         mset (users (fst (fetchUsers localeCompare h s w))) = mset (map snd (db_users w)) \<and>
         friends_error (fst (fetchUsers localeCompare h s w)) = None \<and>
         (db_users w = [] \<longrightarrow> users (fst (fetchUsers localeCompare h s w)) = [])"
proof -
  let ?c = "\<lambda>a b. localeCompare (name a) (name b)"
  have total: "\<And>a b. ?c a b \<le> 0 \<or> ?c b a \<le> 0"
    using cmp unfolding consistent_comparison_def by blast
  have trans: "\<And>a b d. ?c a b \<le> 0 \<Longrightarrow> ?c b d \<le> 0 \<Longrightarrow> ?c a d \<le> 0"
    using cmp unfolding consistent_comparison_def by blast
  have res: "fst (fetchUsers localeCompare h s w) =
      s\<lparr>friends_isLoading := False, friends_error := None, users := Array_sort ?c (map snd (db_users w))\<rparr>"
    using fetched
    by (simp add: fetchUsers_def users_get_def Let_def perform_def foldl_push_all)
  show ?thesis
    unfolding res using sorted_Array_sort[of ?c, OF total trans]
    by (simp add: mset_Array_sort)
qed

theorem fetchUsers_sorted_by_name_witness:
  "consistent_comparison compare_code_units \<and>
   read_answer services_up = None \<and>
   map name (map snd (db_users world_two_users)) = [str ''Bob'', str ''Ada''] \<and>
   map name (users (fst (fetchUsers compare_code_units services_up friends_tab_initial world_two_users)))
     = [str ''Ada'', str ''Bob''] \<and>
   users (fst (fetchUsers compare_code_units services_up friends_tab_initial world_signed_out)) = [] \<and>
   friends_error (fst (fetchUsers compare_code_units services_up friends_tab_initial world_signed_out)) = None"
proof -
  have fetched: "read_answer services_up = None"
    by (simp add: services_up_def)
  have empty: "db_users world_signed_out = []"
    by (simp add: world_signed_out_def)
  have stored: "map name (map snd (db_users world_two_users)) = [str ''Bob'', str ''Ada'']"
    by (simp add: world_two_users_def)
  have sorted: "map name (users (fst (fetchUsers compare_code_units services_up friends_tab_initial world_two_users)))
     = [str ''Ada'', str ''Bob'']"
    by (simp add: fetchUsers_def users_get_def perform_def Let_def services_up_def world_two_users_def str_def)
  from fetchUsers_sorted_by_name[OF consistent_compare_code_units fetched, of friends_tab_initial world_signed_out]
  show ?thesis
    using consistent_compare_code_units fetched stored sorted empty by simp
qed

section \<open>Properties of the album\<close>

lemma mset_insert_desc: "mset (insert_desc d es) = add_mset d (mset es)"
  by (induction es) auto

lemma set_insert_desc: "set (insert_desc d es) = insert d (set es)"
  by (induction es) auto

lemma sorted_insert_desc:
  "sorted_wrt (\<lambda>a b. timestamp (snd b) \<le> timestamp (snd a)) es \<Longrightarrow>
   sorted_wrt (\<lambda>a b. timestamp (snd b) \<le> timestamp (snd a)) (insert_desc d es)"
  by (induction es) (auto simp: set_insert_desc)

lemma mset_orderBy: "mset (orderBy_timestamp_desc docs) = mset docs"
  by (induction docs) (auto simp: orderBy_timestamp_desc_def mset_insert_desc)

lemma sorted_orderBy:
  "sorted_wrt (\<lambda>a b. timestamp (snd b) \<le> timestamp (snd a)) (orderBy_timestamp_desc docs)"
  by (induction docs) (auto simp: orderBy_timestamp_desc_def sorted_insert_desc)

lemma albumItems_onSnapshot_next: "albumItems (onSnapshot_next snapshot s) = map album_item snapshot"
  by (simp add: onSnapshot_next_def foldl_push)

lemma timestamp_album_item: "timestamp (album_item doc) = timestamp (snd doc)"
  by (simp add: album_item_def)

lemma delivery:
  fixes collection s
  defines "items \<equiv> albumItems (onSnapshot_next (orderBy_timestamp_desc collection) s)"
  shows "sorted_wrt (\<lambda>a b. timestamp b \<le> timestamp a) items \<and>
         mset items = mset (map album_item collection) \<and>
         (items \<noteq> [] \<longrightarrow> (\<forall>e \<in> set collection. timestamp (snd e) \<le> timestamp (hd items)))"
proof -
  let ?q = "orderBy_timestamp_desc collection"
  have items: "items = map album_item ?q"
    by (simp add: items_def albumItems_onSnapshot_next)
  have sorted: "sorted_wrt (\<lambda>a b. timestamp b \<le> timestamp a) items"
    using sorted_orderBy[of collection]
    by (simp add: items sorted_wrt_map timestamp_album_item)
  have perm: "mset items = mset (map album_item collection)"
    by (simp add: items mset_orderBy)
  have "\<forall>e \<in> set collection. timestamp (snd e) \<le> timestamp (hd items)" if ne: "items \<noteq> []"
  proof
    fix e assume "e \<in> set collection"
    then have "album_item e \<in> set items"
      using perm by (metis image_eqI set_map set_mset_mset)
    moreover obtain i rest where ir: "items = i # rest" using ne by (cases items) auto
    ultimately have "album_item e = i \<or> album_item e \<in> set rest" by simp
    with sorted ir have "timestamp (album_item e) \<le> timestamp i" by auto
    with ir show "timestamp (snd e) \<le> timestamp (hd items)"
      by (simp add: timestamp_album_item)
  qed
  with sorted perm show ?thesis by blast
qed

lemma fst_album_feed:
  "map fst (album_feed collection additions s) =
     map (\<lambda>k. collection @ take k additions) [0..<Suc (length additions)]"
proof (induction additions arbitrary: collection s)
  case Nil
  then show ?case by simp
next
  case (Cons a additions)
  have "map (\<lambda>k. collection @ take k (a # additions)) [0..<Suc (length (a # additions))]
      = collection # map (\<lambda>k. (collection @ [a]) @ take k additions) [0..<Suc (length additions)]"
    by (simp add: upt_rec[of 0] map_Suc_upt[symmetric] del: upt_Suc)
  with Cons.IH[of "collection @ [a]"] show ?case
    by (simp add: Let_def del: upt_Suc)
qed

lemma album_feed_deliveries:
  "(current, s') \<in> set (album_feed collection additions s) \<Longrightarrow>
     albumItems s' = map album_item (orderBy_timestamp_desc current)"
  by (induction additions arbitrary: collection s) (auto simp: albumItems_onSnapshot_next Let_def)

text \<open>
  C3.  For every collection and every sequence of additions to it, the subscriber is
  called once for the initial load and once after each addition, each time for the
  collection as it then is, and every list it stores holds exactly the current entries
  ordered by timestamp descending; when the list is not empty, no current entry has a
  timestamp above that of its first element.
\<close>

theorem album_feed_newest_first:
  "map fst (album_feed collection additions s) =
     map (\<lambda>k. collection @ take k additions) [0..<Suc (length additions)] \<and>
   (\<forall>(current, s') \<in> set (album_feed collection additions s).
      sorted_wrt (\<lambda>a b. timestamp b \<le> timestamp a) (albumItems s') \<and>
      mset (albumItems s') = mset (map album_item current) \<and>
      (albumItems s' \<noteq> [] \<longrightarrow> (\<forall>e \<in> set current. timestamp (snd e) \<le> timestamp (hd (albumItems s')))))"
proof (intro conjI ballI)
  show "map fst (album_feed collection additions s) =
     map (\<lambda>k. collection @ take k additions) [0..<Suc (length additions)]"
    by (rule fst_album_feed)
next
  fix p assume p: "p \<in> set (album_feed collection additions s)"
  obtain current s' where cs: "p = (current, s')" by (cases p)
  with p have "albumItems s' = map album_item (orderBy_timestamp_desc current)"
    by (auto dest: album_feed_deliveries)
  then have "albumItems s' = albumItems (onSnapshot_next (orderBy_timestamp_desc current) s)"
    by (simp add: albumItems_onSnapshot_next)
  with delivery[of current s] cs
  show "case p of (current, s') \<Rightarrow>
      sorted_wrt (\<lambda>a b. timestamp b \<le> timestamp a) (albumItems s') \<and>
      mset (albumItems s') = mset (map album_item current) \<and>
      (albumItems s' \<noteq> [] \<longrightarrow> (\<forall>e \<in> set current. timestamp (snd e) \<le> timestamp (hd (albumItems s'))))"
    by simp
qed

theorem album_feed_newest_first_witness:
  "map (timestamp \<circ> snd) three_additions = [10, 30, 20] \<and>
   map (\<lambda>delivery. map timestamp (albumItems (snd delivery))) (album_feed [] three_additions album_tab_initial)
     = [[], [10], [30, 10], [30, 20, 10]] \<and>
   map (\<lambda>delivery. map item_id (albumItems (snd delivery))) (album_feed [] three_additions album_tab_initial)
     = [[], [str ''album-1''], [str ''album-2'', str ''album-1''],
        [str ''album-2'', str ''album-3'', str ''album-1'']] \<and>
   map fst (album_feed [] three_additions album_tab_initial)
     = [[], take 1 three_additions, take 2 three_additions, three_additions]"
proof -
  have len: "length three_additions = 3"
    by (simp add: three_additions_def)
  have indices: "[0..<Suc (length three_additions)] = [0, 1, 2, 3]"
    by (simp add: len upt_rec)
  have currents: "map fst (album_feed [] three_additions album_tab_initial)
     = [[], take 1 three_additions, take 2 three_additions, three_additions]"
    using album_feed_newest_first[of "[]" three_additions album_tab_initial, THEN conjunct1]
    by (simp only: indices) (simp add: len)
  have stamps: "map (\<lambda>delivery. map timestamp (albumItems (snd delivery))) (album_feed [] three_additions album_tab_initial)
     = [[], [10], [30, 10], [30, 20, 10]]"
    by (simp add: three_additions_def photo_at_def album_tab_initial_def onSnapshot_next_def
                  orderBy_timestamp_desc_def album_item_def Let_def)
  have ids: "map (\<lambda>delivery. map item_id (albumItems (snd delivery))) (album_feed [] three_additions album_tab_initial)
     = [[], [str ''album-1''], [str ''album-2'', str ''album-1''],
        [str ''album-2'', str ''album-3'', str ''album-1'']]"
    by (simp add: three_additions_def photo_at_def album_tab_initial_def onSnapshot_next_def
                  orderBy_timestamp_desc_def album_item_def Let_def)
  have given: "map (timestamp \<circ> snd) three_additions = [10, 30, 20]"
    by (simp add: three_additions_def photo_at_def)
  from given stamps ids currents show ?thesis by simp
qed

text \<open>
  C9.  An upload attempted while no profile is loaded does nothing but tell the user: the
  one effect of \<open>uploadMedia\<close> is the error alert, so there is no call of
  \<open>ensureAuthenticated\<close>, no upload and no write to the \<^verbatim>\<open>albums\<close> collection, and
  the screen state, the signed-in user and both collections are as they were.
\<close>

theorem uploadMedia_without_profile:
  assumes "currentUser s = None"
  shows "uploadMedia h uri type s w =
           (s, w\<lparr>trace := trace w @ [Alert (str ''Error'') (str ''Please complete your profile first'')]\<rparr>) \<and>
         performed w (snd (uploadMedia h uri type s w)) =
           [Alert (str ''Error'') (str ''Please complete your profile first'')]"
  using assms
  by (simp add: uploadMedia_def perform_def performed_def)

theorem uploadMedia_without_profile_witness:
  "currentUser album_tab_initial = None \<and>
   uploadMedia services_up (str ''file:///photo.jpg'') Image album_tab_initial world_signed_in =
     (album_tab_initial,
      world_signed_in\<lparr>trace := [Alert (str ''Error'') (str ''Please complete your profile first'')]\<rparr>)"
proof -
  have absent: "currentUser album_tab_initial = None"
    by (simp add: album_tab_initial_def)
  from uploadMedia_without_profile[OF absent, of services_up "str ''file:///photo.jpg''" Image world_signed_in]
  show ?thesis
    using absent by (simp add: world_signed_in_def)
qed

end
